theory Spec2Isabelle
  imports Complex_Main
begin

section \<open>Errors, paths and the observable state\<close>

text \<open>
  A path is the list of its segments below the file-system root, as \<open>pathlib\<close> compares
  paths: segment by segment, case-sensitively, with no resolution of \<open>..\<close>.
\<close>

type_synonym path = "string list"

text \<open>
  A Python float as far as the client uses one: the value \<open>float()\<close> returns and
  \<open>time.sleep\<close> receives. Doubles are read as reals; no arithmetic is done on them.
\<close>

datatype pyfloat = Fin real | PosInf | NegInf | NaN

datatype error =
    FileNotFoundError string
  | BadZipFile
  | IsADirectoryError path
  | NotADirectoryError path
  | UnicodeDecodeError path
  | ValueError
  | OverflowError
  | OSError
  | ValidationError string
  | HTTPStatusError nat
  | TransportError
  | ResponseDecodeError
  | ReError
  | MaxRetriesExceeded

section \<open>The Outline API client (outline_client.py)\<close>

record outline_collection =
  coll_id :: string
  coll_name :: string

record outline_document =
  doc_id :: string
  doc_title :: string

record outline_attachment =
  att_id :: string
  att_url :: string

text \<open>
  The JSON payloads the client posts, one constructor per endpoint, with the optional
  keys as options; the last constructor is the multipart upload to the pre-signed URL.
\<close>

datatype request =
    Auth_info
  | Collections_create string "string option" "string option"
  | Collections_info string
  | Documents_create string string string "string option" bool
  | Attachments_create string string nat "string option"
  | Storage_upload string "(string \<times> string) list" path string

text \<open>
  What a response's JSON decodes to. \<open>Unparsable\<close> stands for every body that
  \<open>response.json()\<close>, the key lookups or the pydantic model reject.
\<close>

datatype body =
    Collection_body outline_collection
  | Document_body outline_document
  | Attachment_body string "(string \<times> string) list" outline_attachment
  | Unparsable

record response =
  status_code :: nat
  retry_after :: "string option"
  body :: body

text \<open>A request either raises in the transport (\<open>httpx.RequestError\<close>) or is answered.\<close>

datatype reply = No_reply | Reply response

datatype event =
    Request request
  | Sleep pyfloat
  | Mkdtemp path
  | Rmtree path

text \<open>
  The environment of one run. \<open>server n\<close> is the answer to the run's \<open>n\<close>-th HTTP
  request (from 0): a run is sequential and deterministic, so every behaviour of the
  remote service is one such sequence. \<open>float_of\<close> is Python's built-in \<open>float()\<close> on a
  string (\<open>None\<close>: it raises ValueError), \<open>mime_of\<close> the MIME detection of \<open>get_mime_type\<close>.
\<close>

record world =
  server :: "nat \<Rightarrow> reply"
  float_of :: "string \<Rightarrow> pyfloat option"
  os_sleep :: "real \<Rightarrow> error option"
  mime_of :: "path \<Rightarrow> string"

fun is_request :: "event \<Rightarrow> bool" where
  "is_request (Request _) = True"
| "is_request _ = False"

definition requests :: "event list \<Rightarrow> event list" where
  "requests tr = filter is_request tr"

text \<open>\<open>self.client.post\<close>: the request is logged and the server's next answer returned.\<close>

definition post :: "world \<Rightarrow> request \<Rightarrow> event list \<Rightarrow> reply \<times> event list" where
  "post w rq tr = (server w (length (requests tr)), tr @ [Request rq])"

text \<open>\<open>response.raise_for_status()\<close> of httpx: raises unless the status is 2xx.\<close>

definition is_success :: "response \<Rightarrow> bool" where
  "is_success r = (200 \<le> status_code r \<and> status_code r \<le> 299)"

definition raise_for_status :: "response \<Rightarrow> error option" where
  "raise_for_status r = (if is_success r then None else Some (HTTPStatusError (status_code r)))"

text \<open>
  \<open>time.sleep(secs)\<close> of CPython. The argument is first converted to a count of
  nanoseconds, rounded away from zero: a NaN raises ValueError, and a count outside the
  signed 64-bit range (that of an infinity too, of either sign) raises OverflowError.
  Only then is the sign tested: a negative duration raises ValueError. What is left is
  passed to the operating system, which sleeps or refuses (OSError, for a deadline
  beyond the range of its clock): that answer is \<open>os_sleep\<close> of the world. The range
  test is made on the real value; the rounding of doubles next to \<open>2 ^ 63\<close> is not
  modelled.
\<close>

fun time_sleep :: "world \<Rightarrow> pyfloat \<Rightarrow> error option" where
  "time_sleep w NaN = Some ValueError"
| "time_sleep w NegInf = Some OverflowError"
| "time_sleep w PosInf = Some OverflowError"
| "time_sleep w (Fin d) =
     (if d * 10 ^ 9 < - (2 ^ 63) \<or> 2 ^ 63 - 1 < d * 10 ^ 9 then Some OverflowError
      else if d < 0 then Some ValueError
      else os_sleep w d)"

text \<open>\<open>response.headers.get("Retry-After", "60")\<close>.\<close>

definition retry_after_header :: "response \<Rightarrow> string" where
  "retry_after_header r = (case retry_after r of None \<Rightarrow> ''60'' | Some h \<Rightarrow> h)"

definition max_retries :: nat where
  "max_retries = 3"

text \<open>
  The loop \<open>for attempt in range(max_retries)\<close> of \<open>create_document\<close> and of
  \<open>create_attachment\<close>: the two loops are the same text up to the endpoint and to what
  is read from the decoded body, which is the parameter \<open>decode\<close>.
\<close>

function retry_loop ::
  "world \<Rightarrow> request \<Rightarrow> (body \<Rightarrow> error + 'a) \<Rightarrow> nat \<Rightarrow> event list \<Rightarrow> (error + 'a) \<times> event list"
where
  "retry_loop w rq decode attempt tr =
     (if max_retries \<le> attempt then (Inl MaxRetriesExceeded, tr)
      else
        (case post w rq tr of
           (No_reply, tr1) \<Rightarrow> (Inl TransportError, tr1)
         | (Reply r, tr1) \<Rightarrow>
             if status_code r = 429 then
               if attempt < max_retries - 1 then
                 (case float_of w (retry_after_header r) of
                    None \<Rightarrow> (Inl ValueError, tr1)
                  | Some wait_seconds \<Rightarrow>
                      (case time_sleep w wait_seconds of
                         Some e \<Rightarrow> (Inl e, tr1)
                       | None \<Rightarrow> retry_loop w rq decode (attempt + 1) (tr1 @ [Sleep wait_seconds])))
               else (Inl (HTTPStatusError 429), tr1)
             else
               (case raise_for_status r of
                  Some e \<Rightarrow> (Inl e, tr1)
                | None \<Rightarrow> (decode (body r), tr1))))"
  by pat_completeness auto
termination
  by (relation "measure (\<lambda>(w, rq, decode, attempt, tr). max_retries - attempt)") auto

declare retry_loop.simps [simp del]

text \<open>\<open>if x:\<close> on an optional string: None and the empty string are both false.\<close>

fun truthy :: "string option \<Rightarrow> string option" where
  "truthy None = None"
| "truthy (Some s) = (if s = [] then None else Some s)"

fun decode_document :: "body \<Rightarrow> error + outline_document" where
  "decode_document (Document_body d) = Inr d"
| "decode_document _ = Inl ResponseDecodeError"

fun decode_attachment ::
  "body \<Rightarrow> error + (string \<times> (string \<times> string) list \<times> outline_attachment)" where
  "decode_attachment (Attachment_body upload_url form_data attachment) =
     Inr (upload_url, form_data, attachment)"
| "decode_attachment _ = Inl ResponseDecodeError"

fun decode_collection :: "body \<Rightarrow> error + outline_collection" where
  "decode_collection (Collection_body c) = Inr c"
| "decode_collection _ = Inl ResponseDecodeError"

definition create_document ::
  "world \<Rightarrow> string \<Rightarrow> string \<Rightarrow> string \<Rightarrow> string option \<Rightarrow> bool \<Rightarrow> event list
   \<Rightarrow> (error + outline_document) \<times> event list" where
  "create_document w title doc_text collection_id parent_document_id publish tr =
     retry_loop w (Documents_create title doc_text collection_id (truthy parent_document_id) publish)
       decode_document 0 tr"

definition create_attachment ::
  "world \<Rightarrow> string \<Rightarrow> string \<Rightarrow> nat \<Rightarrow> string option \<Rightarrow> event list
   \<Rightarrow> (error + (string \<times> (string \<times> string) list \<times> outline_attachment)) \<times> event list" where
  "create_attachment w name content_type size_bytes document_id tr =
     retry_loop w (Attachments_create name content_type size_bytes (truthy document_id))
       decode_attachment 0 tr"

text \<open>The calls without a retry loop: one request, then \<open>raise_for_status\<close> and decoding.\<close>

definition post_once ::
  "world \<Rightarrow> request \<Rightarrow> (body \<Rightarrow> error + 'a) \<Rightarrow> event list \<Rightarrow> (error + 'a) \<times> event list" where
  "post_once w rq decode tr =
     (case post w rq tr of
        (No_reply, tr1) \<Rightarrow> (Inl TransportError, tr1)
      | (Reply r, tr1) \<Rightarrow>
          (case raise_for_status r of
             Some e \<Rightarrow> (Inl e, tr1)
           | None \<Rightarrow> (decode (body r), tr1)))"

definition create_collection ::
  "world \<Rightarrow> string \<Rightarrow> string option \<Rightarrow> string option \<Rightarrow> event list
   \<Rightarrow> (error + outline_collection) \<times> event list" where
  "create_collection w name description color tr =
     post_once w (Collections_create name (truthy description) (truthy color)) decode_collection tr"

definition get_collection ::
  "world \<Rightarrow> string \<Rightarrow> event list \<Rightarrow> (error + outline_collection) \<times> event list" where
  "get_collection w collection_id tr =
     post_once w (Collections_info collection_id) decode_collection tr"

subsection \<open>The retry policy, as a property of one call\<close>

text \<open>
  How the last attempt of a call ends, \<open>attempts\<close> being the number of requests made: a
  transport failure; a 429, which on the third attempt is the HTTP error and earlier
  means that the wait could not be taken (\<open>float()\<close> or \<open>time.sleep\<close> raised); a 2xx,
  whose body is decoded; any other status, which is the HTTP error.
\<close>

definition last_attempt ::
  "world \<Rightarrow> (body \<Rightarrow> error + 'a) \<Rightarrow> nat \<Rightarrow> reply \<Rightarrow> (error + 'a) \<Rightarrow> bool" where
  "last_attempt w decode attempts rep res =
     (case rep of
        No_reply \<Rightarrow> res = Inl TransportError
      | Reply r \<Rightarrow>
          if status_code r = 429 then
            (if attempts = 3 then res = Inl (HTTPStatusError 429)
             else (case float_of w (case retry_after r of None \<Rightarrow> ''60'' | Some h \<Rightarrow> h) of
                     None \<Rightarrow> res = Inl ValueError
                   | Some d \<Rightarrow> (\<exists>e. time_sleep w d = Some e \<and> res = Inl e)))
          else if is_success r then res = decode (body r)
          else res = Inl (HTTPStatusError (status_code r)))"

text \<open>
  A call that starts with the trace \<open>tr\<close> and ends with \<open>out\<close> follows the policy when
  it made \<open>length waits + 1 \<le> 3\<close> requests, slept \<open>waits ! k\<close> between request \<open>k\<close> and
  request \<open>k + 1\<close>, every request but the last was answered 429 with \<open>waits ! k\<close> the
  float of its Retry-After header (of \<open>"60"\<close> without one), and the last attempt ended
  as \<open>last_attempt\<close> says.
\<close>

definition retry_policy ::
  "world \<Rightarrow> request \<Rightarrow> (body \<Rightarrow> error + 'a) \<Rightarrow> event list \<Rightarrow> (error + 'a) \<times> event list \<Rightarrow> bool"
where
  "retry_policy w rq decode tr out =
     (\<exists>waits.
        length waits + 1 \<le> 3 \<and>
        snd out = tr @ concat (map (\<lambda>d. [Request rq, Sleep d]) waits) @ [Request rq] \<and>
        (\<forall>k<length waits. \<exists>r.
            server w (length (requests tr) + k) = Reply r \<and> status_code r = 429 \<and>
            float_of w (case retry_after r of None \<Rightarrow> ''60'' | Some h \<Rightarrow> h) = Some (waits ! k) \<and>
            time_sleep w (waits ! k) = None) \<and>
        last_attempt w decode (length waits + 1)
          (server w (length (requests tr) + length waits)) (fst out))"

text \<open>
  A \<open>float()\<close> for the worlds below: it reads the plain decimals, digits with at most one
  point among them, and refuses every other string (as Python's refuses an HTTP-date).
\<close>

definition is_digit :: "char \<Rightarrow> bool" where
  "is_digit c = (let n = (of_char c :: nat) in 48 \<le> n \<and> n \<le> 57)"

definition nat_of_digits :: "string \<Rightarrow> nat" where
  "nat_of_digits ds = foldl (\<lambda>n c. 10 * n + (of_char c - 48)) 0 ds"

definition float_of_decimal :: "string \<Rightarrow> pyfloat option" where
  "float_of_decimal s =
     (let ip = takeWhile is_digit s; r = dropWhile is_digit s in
      if r = [] then (if ip = [] then None else Some (Fin (real (nat_of_digits ip))))
      else if hd r = CHR ''.'' \<and> list_all is_digit (tl r) \<and> (ip \<noteq> [] \<or> tl r \<noteq> [])
        then Some (Fin (real (nat_of_digits ip)
                        + real (nat_of_digits (tl r)) / 10 ^ length (tl r)))
      else None)"

text \<open>
  Servers to run the client against: one 429 with \<open>Retry-After: 2\<close> and then success;
  429 without the header for ever; two 429 with fractional waits and then success; and a
  429 whose Retry-After is an HTTP-date.
\<close>

definition world_retry_once :: world where
  "world_retry_once =
     \<lparr>server = (\<lambda>n. if n = 0
          then Reply \<lparr>status_code = 429, retry_after = Some ''2'', body = Unparsable\<rparr>
          else Reply \<lparr>status_code = 200, retry_after = None,
                 body = Document_body \<lparr>doc_id = ''d1'', doc_title = ''T''\<rparr>\<rparr>),
      float_of = float_of_decimal,
      os_sleep = (\<lambda>d. None),
      mime_of = (\<lambda>p. ''application/octet-stream'')\<rparr>"

definition world_rate_limited :: world where
  "world_rate_limited =
     \<lparr>server = (\<lambda>n. Reply \<lparr>status_code = 429, retry_after = None, body = Unparsable\<rparr>),
      float_of = float_of_decimal,
      os_sleep = (\<lambda>d. None),
      mime_of = (\<lambda>p. ''application/octet-stream'')\<rparr>"

definition world_fractional :: world where
  "world_fractional =
     \<lparr>server = (\<lambda>n. if n = 0
          then Reply \<lparr>status_code = 429, retry_after = Some ''0.5'', body = Unparsable\<rparr>
          else if n = 1
          then Reply \<lparr>status_code = 429, retry_after = Some ''1.25'', body = Unparsable\<rparr>
          else Reply \<lparr>status_code = 200, retry_after = None,
                 body = Document_body \<lparr>doc_id = ''d1'', doc_title = ''T''\<rparr>\<rparr>),
      float_of = float_of_decimal,
      os_sleep = (\<lambda>d. None),
      mime_of = (\<lambda>p. ''application/octet-stream'')\<rparr>"

definition world_http_date :: world where
  "world_http_date =
     \<lparr>server = (\<lambda>n. if n = 0
          then Reply \<lparr>status_code = 429, retry_after = Some ''Wed, 21 Oct 2015 07:28:00 GMT'',
                 body = Unparsable\<rparr>
          else Reply \<lparr>status_code = 200, retry_after = None,
                 body = Document_body \<lparr>doc_id = ''d1'', doc_title = ''T''\<rparr>\<rparr>),
      float_of = float_of_decimal,
      os_sleep = (\<lambda>d. None),
      mime_of = (\<lambda>p. ''application/octet-stream'')\<rparr>"

section \<open>Regular expressions, as the \<open>re\<close> module runs them\<close>

text \<open>
  The constructs the module's patterns use. Text is a list of 8-bit characters; white
  space and letter case are those of ASCII (Python's further Unicode white space, and
  the two non-ASCII letters that case-fold to \<open>s\<close> and \<open>k\<close>, are outside the model).
  \<open>Star_set\<close> and \<open>Plus_set\<close> are the greedy \<open>[...]*\<close> and \<open>[...]+\<close> over a character
  class, \<open>Lazy_dots\<close> is \<open>.*?\<close> under DOTALL, \<open>Opt\<close> the greedy \<open>?\<close>, \<open>Grp\<close> a capturing
  group, \<open>Cat\<close> a sequence.
\<close>

datatype re =
    Chr char
  | Str string
  | Opt re
  | Star_set "char \<Rightarrow> bool"
  | Plus_set "char \<Rightarrow> bool"
  | Lazy_dots
  | Grp re
  | Cat "re list"

definition ascii_lower :: "char \<Rightarrow> char" where
  "ascii_lower c =
     (let n = (of_char c :: nat) in if 65 \<le> n \<and> n \<le> 90 then char_of (n + 32) else c)"

definition char_eq :: "bool \<Rightarrow> char \<Rightarrow> char \<Rightarrow> bool" where
  "char_eq ignorecase a b = (if ignorecase then ascii_lower a = ascii_lower b else a = b)"

fun str_prefix :: "bool \<Rightarrow> string \<Rightarrow> string \<Rightarrow> string option" where
  "str_prefix ic [] s = Some s"
| "str_prefix ic (p # ps) [] = None"
| "str_prefix ic (p # ps) (x # xs) = (if char_eq ic p x then str_prefix ic ps xs else None)"

text \<open>
  The backtracking matcher, in continuation-passing style: \<open>bt ic r s caps k\<close> matches \<open>r\<close>
  at the start of \<open>s\<close> and hands the rest of the text and the captured groups to \<open>k\<close>;
  when \<open>k\<close> fails the next alternative of \<open>r\<close> is tried, the greedy constructs from the
  longest match down and the lazy one from the shortest up. The first success is the
  match the \<open>re\<close> module reports.
\<close>

fun bt :: "bool \<Rightarrow> re \<Rightarrow> string \<Rightarrow> string list \<Rightarrow> (string \<Rightarrow> string list \<Rightarrow> 'r option) \<Rightarrow> 'r option"
where
  "bt ic (Chr c) s caps k =
     (case s of [] \<Rightarrow> None | x # xs \<Rightarrow> if char_eq ic c x then k xs caps else None)"
| "bt ic (Str p) s caps k =
     (case str_prefix ic p s of None \<Rightarrow> None | Some rest \<Rightarrow> k rest caps)"
| "bt ic (Opt r) s caps k =
     (case bt ic r s caps k of Some m \<Rightarrow> Some m | None \<Rightarrow> k s caps)"
| "bt ic (Star_set P) s caps k =
     (case s of
        [] \<Rightarrow> k [] caps
      | x # xs \<Rightarrow>
          if P x then (case bt ic (Star_set P) xs caps k of Some m \<Rightarrow> Some m | None \<Rightarrow> k s caps)
          else k s caps)"
| "bt ic (Plus_set P) s caps k =
     (case s of
        [] \<Rightarrow> None
      | x # xs \<Rightarrow> if P x then bt ic (Star_set P) xs caps k else None)"
| "bt ic Lazy_dots s caps k =
     (case k s caps of
        Some m \<Rightarrow> Some m
      | None \<Rightarrow> (case s of [] \<Rightarrow> None | x # xs \<Rightarrow> bt ic Lazy_dots xs caps k))"
| "bt ic (Grp r) s caps k =
     bt ic r s caps (\<lambda>rest caps'. k rest (caps' @ [take (length s - length rest) s]))"
| "bt ic (Cat []) s caps k = k s caps"
| "bt ic (Cat (r # rs)) s caps k = bt ic r s caps (\<lambda>rest caps'. bt ic (Cat rs) rest caps' k)"

text \<open>The match of a pattern at the start of the text: its groups and the text after it.\<close>

definition match_at :: "bool \<Rightarrow> re \<Rightarrow> string \<Rightarrow> (string list \<times> string) option" where
  "match_at ic r s = bt ic r s [] (\<lambda>rest caps. Some (caps, rest))"

text \<open>
  \<open>re.sub(pattern, repl, text)\<close> with a function \<open>repl\<close> of the groups, and \<open>re.findall\<close>:
  the leftmost match, then on from its end. None of the module's patterns matches the
  empty string, so a match always consumes text; the test on the lengths is what makes
  the scan a total function, and an empty match is passed over like a failure.
\<close>

function re_sub :: "bool \<Rightarrow> re \<Rightarrow> (string list \<Rightarrow> string) \<Rightarrow> string \<Rightarrow> string" where
  "re_sub ic r repl [] = []"
| "re_sub ic r repl (x # xs) =
     (case match_at ic r (x # xs) of
        None \<Rightarrow> x # re_sub ic r repl xs
      | Some (caps, rest) \<Rightarrow>
          if length rest \<le> length xs then repl caps @ re_sub ic r repl rest
          else x # re_sub ic r repl xs)"
  by pat_completeness auto
termination
  by (relation "measure (\<lambda>(ic, r, repl, s). length s)") auto


section \<open>The content transformer (markdown_transformer.py)\<close>

text \<open>\<open>str.isspace\<close> on an ASCII character: tab to carriage return, 0x1c to 0x1f, space.\<close>

definition is_space :: "char \<Rightarrow> bool" where
  "is_space c = (let n = (of_char c :: nat) in (9 \<le> n \<and> n \<le> 13) \<or> (28 \<le> n \<and> n \<le> 32))"


definition strip :: "string \<Rightarrow> string" where
  "strip s = rev (dropWhile is_space (rev (dropWhile is_space s)))"



text \<open>\<open>str(n)\<close> for a non-negative integer: its decimal digits.\<close>

fun str_of_nat :: "nat \<Rightarrow> string" where
  "str_of_nat n =
     (if n < 10 then [char_of (48 + n)] else str_of_nat (n div 10) @ [char_of (48 + n mod 10)])"

declare str_of_nat.simps [simp del]

text \<open>
  The text between the separators, as \<open>str.split(sep)\<close> gives it, and the segments
  \<open>pathlib\<close> keeps of a POSIX path: the empty ones and \<open>.\<close> are dropped, \<open>..\<close> is kept.
\<close>

fun split_sep :: "char \<Rightarrow> string \<Rightarrow> string list" where
  "split_sep sep [] = [[]]"
| "split_sep sep (c # cs) =
     (if c = sep then [] # split_sep sep cs
      else (case split_sep sep cs of [] \<Rightarrow> [[c]] | w # ws \<Rightarrow> (c # w) # ws))"

definition path_parts :: "string \<Rightarrow> string list" where
  "path_parts s = filter (\<lambda>seg. seg \<noteq> [] \<and> seg \<noteq> ''.'') (split_sep CHR ''/'' s)"

text \<open>\<open>Path(s).name\<close>: the last segment, the empty string when there is none.\<close>

definition path_name :: "string \<Rightarrow> string" where
  "path_name s = (case path_parts s of [] \<Rightarrow> [] | p # ps \<Rightarrow> last (p # ps))"

text \<open>\<open>f"!\\[([^\\]]*)\\]\\({escaped_pattern}\\)"\<close> and the same without the \<open>!\<close>.\<close>

definition image_pattern :: "string \<Rightarrow> re" where
  "image_pattern pattern =
     Cat [Chr CHR ''!'', Chr CHR ''['', Grp (Star_set (\<lambda>c. c \<noteq> CHR '']'')), Chr CHR '']'',
          Chr CHR ''('', Str pattern, Chr CHR '')'']"

definition link_pattern :: "string \<Rightarrow> re" where
  "link_pattern pattern =
     Cat [Chr CHR ''['', Grp (Star_set (\<lambda>c. c \<noteq> CHR '']'')), Chr CHR '']'',
          Chr CHR ''('', Str pattern, Chr CHR '')'']"

definition replace_link :: "string \<Rightarrow> nat \<Rightarrow> string list \<Rightarrow> string" where
  "replace_link outline_url file_size caps =
     (let link_text = strip (caps ! 0);
          filename = (if CHR ''/'' \<in> set link_text then path_name link_text else link_text)
      in ''['' @ filename @ '' '' @ str_of_nat file_size @ '']('' @ outline_url @ '')'')"

text \<open>
  The image replacement is the template \<open>f"![\\1]({outline_url})"\<close>, in which \<open>re.sub\<close>
  reads backslash escapes before it looks for a match. A URL without a backslash is
  copied as it is. The escapes of a URL with one (group references, character escapes,
  or \<open>re.error\<close>) are not modelled: the model stops there with \<open>ReError\<close>.
\<close>

definition replace_image :: "string \<Rightarrow> string list \<Rightarrow> string" where
  "replace_image outline_url caps = ''!['' @ caps ! 0 @ '']('' @ outline_url @ '')''"

definition replace_one_pattern :: "string \<Rightarrow> nat \<Rightarrow> string \<Rightarrow> string \<Rightarrow> error + string" where
  "replace_one_pattern outline_url file_size pattern result =
     (if CHR 0x5C \<in> set outline_url then Inl ReError
      else Inr (re_sub False (link_pattern pattern) (replace_link outline_url file_size)
                  (re_sub False (image_pattern pattern) (replace_image outline_url) result)))"

fun replace_patterns :: "string \<Rightarrow> nat \<Rightarrow> string list \<Rightarrow> string \<Rightarrow> error + string" where
  "replace_patterns outline_url file_size [] result = Inr result"
| "replace_patterns outline_url file_size (pattern # patterns) result =
     (case replace_one_pattern outline_url file_size pattern result of
        Inl e \<Rightarrow> Inl e
      | Inr result' \<Rightarrow> replace_patterns outline_url file_size patterns result')"

text \<open>
  A \<open>Dict[str, Tuple[str, int]]\<close> in insertion order: an association list with one
  entry a key. \<open>replace_attachment_urls\<close> walks its items in that order.
\<close>

type_synonym url_mapping = "(string \<times> (string \<times> nat)) list"

fun replace_attachment_urls :: "string \<Rightarrow> url_mapping \<Rightarrow> error + string" where
  "replace_attachment_urls content [] = Inr content"
| "replace_attachment_urls content ((docmost_path, (outline_url, file_size)) # items) =
     (case replace_patterns outline_url file_size
             [docmost_path, ''/'' @ docmost_path, ''//'' @ docmost_path] content of
        Inl e \<Rightarrow> Inl e
      | Inr result \<Rightarrow> replace_attachment_urls result items)"

text \<open>\<open>r"<details>\s*<summary>([^<]+)</summary>\s*(.*?)</details>"\<close>, DOTALL and IGNORECASE.\<close>

definition details_pattern :: re where
  "details_pattern =
     Cat [Str ''<details>'', Star_set is_space, Str ''<summary>'',
          Grp (Plus_set (\<lambda>c. c \<noteq> CHR ''<'')), Str ''</summary>'', Star_set is_space,
          Grp Lazy_dots, Str ''</details>'']"

definition replace_details :: "string list \<Rightarrow> string" where
  "replace_details caps =
     (let title = strip (caps ! 0); inner_content = strip (caps ! 1)
      in ''### '' @ title @ [CHR 0x0A, CHR 0x0A] @ inner_content)"

definition convert_details_to_headings :: "string \<Rightarrow> string" where
  "convert_details_to_headings content = re_sub True details_pattern replace_details content"

definition transform_content :: "string \<Rightarrow> url_mapping \<Rightarrow> error + string" where
  "transform_content content mapping =
     replace_attachment_urls (convert_details_to_headings content) mapping"

section \<open>What the patterns match, stated without the matcher\<close>

text \<open>
  The texts a pattern can match and the groups it then captures, with no order among the
  alternatives: \<open>matches ic r w g\<close> says that \<open>r\<close> matches exactly the text \<open>w\<close> and captures
  \<open>g\<close>. The matcher is proved sound for it below.
\<close>

inductive matches :: "bool \<Rightarrow> re \<Rightarrow> string \<Rightarrow> string list \<Rightarrow> bool" where
  m_chr: "char_eq ic c x \<Longrightarrow> matches ic (Chr c) [x] []"
| m_str: "list_all2 (char_eq ic) p w \<Longrightarrow> matches ic (Str p) w []"
| m_opt_some: "matches ic r w g \<Longrightarrow> matches ic (Opt r) w g"
| m_opt_none: "matches ic (Opt r) [] []"
| m_star: "\<forall>x\<in>set w. P x \<Longrightarrow> matches ic (Star_set P) w []"
| m_plus: "w \<noteq> [] \<Longrightarrow> \<forall>x\<in>set w. P x \<Longrightarrow> matches ic (Plus_set P) w []"
| m_lazy: "matches ic Lazy_dots w []"
| m_grp: "matches ic r w g \<Longrightarrow> matches ic (Grp r) w (g @ [w])"
| m_nil: "matches ic (Cat []) [] []"
| m_cons: "matches ic r w1 g1 \<Longrightarrow> matches ic (Cat rs) w2 g2
           \<Longrightarrow> matches ic (Cat (r # rs)) (w1 @ w2) (g1 @ g2)"
















section \<open>Properties\<close>

subsection \<open>The matcher\<close>









inductive_simps matches_Chr: "matches ic (Chr c) w g"
inductive_simps matches_Str: "matches ic (Str p) w g"
inductive_simps matches_Opt: "matches ic (Opt r) w g"
inductive_simps matches_Star: "matches ic (Star_set P) w g"
inductive_simps matches_Plus: "matches ic (Plus_set P) w g"
inductive_simps matches_Lazy: "matches ic Lazy_dots w g"
inductive_simps matches_Grp: "matches ic (Grp r) w g"
inductive_simps matches_Nil: "matches ic (Cat []) w g"
inductive_simps matches_Cons: "matches ic (Cat (r # rs)) w g"

lemmas matches_simps = matches_Chr matches_Str matches_Opt matches_Star matches_Plus
  matches_Lazy matches_Grp matches_Nil matches_Cons





subsection \<open>The reference pattern\<close>

























subsection \<open>The details pattern\<close>


































subsection \<open>The retry loop\<close>

lemma requests_snoc_request: "requests (tr @ [Request rq]) = requests tr @ [Request rq]"
  by (simp add: requests_def)

lemma requests_snoc_sleep: "requests (tr @ [Sleep d]) = requests tr"
  by (simp add: requests_def)

text \<open>
  The loop entered at attempt \<open>a\<close> makes at most \<open>3 - a\<close> requests. The proof follows the
  loop's own recursion: either this attempt is the last one, or it slept and the
  hypothesis describes the rest.
\<close>

lemma retry_loop_shape:
  "a < 3 \<Longrightarrow> retry_loop w rq dec a tr = (res, tr') \<Longrightarrow>
    \<exists>ws. length ws + a \<le> 2
      \<and> tr' = tr @ concat (map (\<lambda>d. [Request rq, Sleep d]) ws) @ [Request rq]
      \<and> (\<forall>k<length ws. \<exists>r. server w (length (requests tr) + k) = Reply r \<and> status_code r = 429
             \<and> float_of w (retry_after_header r) = Some (ws ! k) \<and> time_sleep w (ws ! k) = None)
      \<and> last_attempt w dec (length ws + a + 1) (server w (length (requests tr) + length ws)) res"
proof (induction w rq dec a tr arbitrary: res tr' rule: retry_loop.induct)
  case (1 w rq decode attempt tr)
  let ?n = "length (requests tr)"
  show ?case
  proof (cases "server w ?n")
    case No_reply
    with "1.prems" show ?thesis
      by (subst (asm) retry_loop.simps)
         (auto simp: post_def max_retries_def last_attempt_def intro!: exI[of _ "[]"])
  next
    case (Reply r)
    show ?thesis
    proof (cases "status_code r = 429 \<and> attempt < 2
        \<and> (\<exists>d. float_of w (retry_after_header r) = Some d \<and> time_sleep w d = None)")
      case False
      with "1.prems" Reply show ?thesis
        by (subst (asm) retry_loop.simps)
           (auto simp: post_def max_retries_def last_attempt_def raise_for_status_def
                 retry_after_header_def
                 split: option.splits if_splits intro!: exI[of _ "[]"])
    next
      case True
      then obtain d where d: "float_of w (retry_after_header r) = Some d" "time_sleep w d = None"
        and s: "status_code r = 429" and a: "attempt < 2" by blast
      have rec: "retry_loop w rq decode (attempt + 1) ((tr @ [Request rq]) @ [Sleep d]) = (res, tr')"
        using "1.prems" Reply d s a
        by (subst (asm) retry_loop.simps) (simp add: post_def max_retries_def requests_def)
      have "\<exists>ws. length ws + (attempt + 1) \<le> 2
        \<and> tr' = ((tr @ [Request rq]) @ [Sleep d])
             @ concat (map (\<lambda>d. [Request rq, Sleep d]) ws) @ [Request rq]
        \<and> (\<forall>k<length ws. \<exists>r.
              server w (length (requests ((tr @ [Request rq]) @ [Sleep d])) + k) = Reply r
              \<and> status_code r = 429
              \<and> float_of w (retry_after_header r) = Some (ws ! k) \<and> time_sleep w (ws ! k) = None)
        \<and> last_attempt w decode (length ws + (attempt + 1) + 1)
             (server w (length (requests ((tr @ [Request rq]) @ [Sleep d])) + length ws)) res"
        using a rec Reply s d
        by (intro "1.IH") (auto simp: max_retries_def post_def)
      then obtain ws where ws: "length ws + (attempt + 1) \<le> 2"
        "tr' = ((tr @ [Request rq]) @ [Sleep d])
           @ concat (map (\<lambda>d. [Request rq, Sleep d]) ws) @ [Request rq]"
        "\<forall>k<length ws. \<exists>r. server w (Suc ?n + k) = Reply r \<and> status_code r = 429
             \<and> float_of w (retry_after_header r) = Some (ws ! k) \<and> time_sleep w (ws ! k) = None"
        "last_attempt w decode (length ws + (attempt + 1) + 1) (server w (Suc ?n + length ws)) res"
        by (auto simp: requests_def)
      show ?thesis
      proof (intro exI[of _ "d # ws"] conjI allI impI)
        show "length (d # ws) + attempt \<le> 2" using ws(1) by simp
        show "tr' = tr @ concat (map (\<lambda>d. [Request rq, Sleep d]) (d # ws)) @ [Request rq]"
          using ws(2) by simp
        show "last_attempt w decode (length (d # ws) + attempt + 1)
            (server w (?n + length (d # ws))) res"
          using ws(4) by simp
      next
        fix k assume "k < length (d # ws)"
        then show "\<exists>r. server w (?n + k) = Reply r \<and> status_code r = 429
             \<and> float_of w (retry_after_header r) = Some ((d # ws) ! k)
             \<and> time_sleep w ((d # ws) ! k) = None"
          using ws(3) Reply s d by (cases k) auto
      qed
    qed
  qed
qed

lemma retry_loop_policy: "retry_policy w rq dec tr (retry_loop w rq dec 0 tr)"
proof -
  obtain res tr' where run: "retry_loop w rq dec 0 tr = (res, tr')"
    by (cases "retry_loop w rq dec 0 tr")
  from retry_loop_shape [OF _ run] show ?thesis
    unfolding retry_policy_def run retry_after_header_def by auto
qed

text \<open>
  C2, as the code has it. \<open>create_document\<close> and \<open>create_attachment\<close> make at most
  three requests. A request is repeated only after a 429, and only after sleeping for
  the float of that response's Retry-After header (of \<open>"60"\<close> when the header is absent).
  A 429 on the first or second attempt is retried exactly when that wait can be taken:
  when \<open>float()\<close> reads the header and \<open>time.sleep\<close> accepts the duration. When it cannot,
  the call ends at that response with the exception \<open>float()\<close> or \<open>time.sleep\<close> raised,
  without a wait and without another request. A 429 on the third attempt is the HTTP
  error, with no fourth request; a response that is neither 429 nor 2xx ends the call
  at once with its HTTP error.
\<close>

theorem create_calls_follow_retry_policy:
  "retry_policy w (Documents_create title doc_text collection_id (truthy parent_document_id) publish)
     decode_document tr
     (create_document w title doc_text collection_id parent_document_id publish tr)
   \<and> retry_policy w (Attachments_create name content_type size_bytes (truthy document_id))
     decode_attachment tr
     (create_attachment w name content_type size_bytes document_id tr)"
  unfolding create_document_def create_attachment_def
  by (intro conjI retry_loop_policy)

lemmas run_simps =
  create_document_def create_attachment_def retry_loop.simps post_def requests_def
  max_retries_def float_of_decimal_def is_digit_def nat_of_digits_def retry_after_header_def
  raise_for_status_def is_success_def

lemma run_retry_once:
  "create_document world_retry_once ''T'' ''x'' ''c'' None True [] =
     (Inr \<lparr>doc_id = ''d1'', doc_title = ''T''\<rparr>,
      [Request (Documents_create ''T'' ''x'' ''c'' None True), Sleep (Fin 2),
       Request (Documents_create ''T'' ''x'' ''c'' None True)])"
  by (simp add: run_simps world_retry_once_def)

lemma run_rate_limited:
  "create_attachment world_rate_limited ''a.png'' ''image/png'' 10 None [] =
     (Inl (HTTPStatusError 429),
      [Request (Attachments_create ''a.png'' ''image/png'' 10 None), Sleep (Fin 60),
       Request (Attachments_create ''a.png'' ''image/png'' 10 None), Sleep (Fin 60),
       Request (Attachments_create ''a.png'' ''image/png'' 10 None)])"
  by (simp add: run_simps world_rate_limited_def)

lemma run_fractional:
  "create_document world_fractional ''T'' ''x'' ''c'' None True [] =
     (Inr \<lparr>doc_id = ''d1'', doc_title = ''T''\<rparr>,
      [Request (Documents_create ''T'' ''x'' ''c'' None True), Sleep (Fin (1 / 2)),
       Request (Documents_create ''T'' ''x'' ''c'' None True), Sleep (Fin (5 / 4)),
       Request (Documents_create ''T'' ''x'' ''c'' None True)])"
  by (simp add: run_simps world_fractional_def)

theorem create_calls_follow_retry_policy_witness:
  "retry_policy world_retry_once (Documents_create ''T'' ''x'' ''c'' None True) decode_document []
     (create_document world_retry_once ''T'' ''x'' ''c'' None True [])
   \<and> create_document world_retry_once ''T'' ''x'' ''c'' None True [] =
       (Inr \<lparr>doc_id = ''d1'', doc_title = ''T''\<rparr>,
        [Request (Documents_create ''T'' ''x'' ''c'' None True), Sleep (Fin 2),
         Request (Documents_create ''T'' ''x'' ''c'' None True)])
   \<and> retry_policy world_rate_limited (Attachments_create ''a.png'' ''image/png'' 10 None)
       decode_attachment []
       (create_attachment world_rate_limited ''a.png'' ''image/png'' 10 None [])
   \<and> create_attachment world_rate_limited ''a.png'' ''image/png'' 10 None [] =
       (Inl (HTTPStatusError 429),
        [Request (Attachments_create ''a.png'' ''image/png'' 10 None), Sleep (Fin 60),
         Request (Attachments_create ''a.png'' ''image/png'' 10 None), Sleep (Fin 60),
         Request (Attachments_create ''a.png'' ''image/png'' 10 None)])
   \<and> retry_policy world_fractional (Documents_create ''T'' ''x'' ''c'' None True) decode_document []
     (create_document world_fractional ''T'' ''x'' ''c'' None True [])
   \<and> create_document world_fractional ''T'' ''x'' ''c'' None True [] =
       (Inr \<lparr>doc_id = ''d1'', doc_title = ''T''\<rparr>,
        [Request (Documents_create ''T'' ''x'' ''c'' None True), Sleep (Fin (1 / 2)),
         Request (Documents_create ''T'' ''x'' ''c'' None True), Sleep (Fin (5 / 4)),
         Request (Documents_create ''T'' ''x'' ''c'' None True)])"
proof -
  have "retry_policy world_retry_once (Documents_create ''T'' ''x'' ''c'' None True)
      decode_document [] (create_document world_retry_once ''T'' ''x'' ''c'' None True [])"
    using create_calls_follow_retry_policy
      [where w = world_retry_once and title = "''T''" and doc_text = "''x''"
         and collection_id = "''c''" and parent_document_id = None and publish = True
         and tr = "[]"]
    by simp
  moreover have "retry_policy world_rate_limited
      (Attachments_create ''a.png'' ''image/png'' 10 None) decode_attachment []
      (create_attachment world_rate_limited ''a.png'' ''image/png'' 10 None [])"
    using create_calls_follow_retry_policy
      [where w = world_rate_limited and name = "''a.png''" and content_type = "''image/png''"
         and size_bytes = 10 and document_id = None and tr = "[]"]
    by simp
  moreover have "retry_policy world_fractional (Documents_create ''T'' ''x'' ''c'' None True)
      decode_document [] (create_document world_fractional ''T'' ''x'' ''c'' None True [])"
    using create_calls_follow_retry_policy
      [where w = world_fractional and title = "''T''" and doc_text = "''x''"
         and collection_id = "''c''" and parent_document_id = None and publish = True
         and tr = "[]"]
    by simp
  ultimately show ?thesis
    by (simp only: run_retry_once run_rate_limited run_fractional simp_thms)
qed

text \<open>
  C2 as stated does not hold of every response: a 429 on the first attempt whose
  Retry-After is an HTTP-date is not retried, although two attempts are left. \<open>float()\<close>
  raises ValueError on the header; the call has made one request, has not slept, and
  ends with that exception, not with the HTTP error, while the server would have
  answered the second request with success.
\<close>

theorem create_document_not_retried_on_http_date:
  "server world_http_date 0 =
     Reply \<lparr>status_code = 429, retry_after = Some ''Wed, 21 Oct 2015 07:28:00 GMT'',
            body = Unparsable\<rparr>
   \<and> server world_http_date 1 =
     Reply \<lparr>status_code = 200, retry_after = None,
            body = Document_body \<lparr>doc_id = ''d1'', doc_title = ''T''\<rparr>\<rparr>
   \<and> create_document world_http_date ''T'' ''x'' ''c'' None True [] =
       (Inl ValueError, [Request (Documents_create ''T'' ''x'' ''c'' None True)])"
  by (simp add: run_simps world_http_date_def)

end
